theory Spec2Isabelle
  imports Main
begin

section \<open>JavaScript values, exceptions and collaborators\<close>

text \<open>
  The two source files are TypeScript: \<^verbatim>\<open>packages/api-jwt/src/lib/client.ts\<close> (the class
  \<^verbatim>\<open>Client\<close>) and \<^verbatim>\<open>packages/influxdb/src/lib/utils/common.ts\<close> (\<^verbatim>\<open>tryNumberParse\<close>).
  Objects that the code builds, passes on and returns are JavaScript values. An object is
  an association list from property names to values, in the order of the object literal;
  the property names of an object are distinct.
  Numbers that occur in these objects are whole numbers of milliseconds or seconds, so
  they are integers here (\<^verbatim>\<open>Date.now() + 345600000\<close> stays far below \<open>2 ^ 53\<close> and is exact).
\<close>

datatype jsval =
    JUndefined
  | JNull
  | JBool bool
  | JNum int
  | JStr string
  | JArr "jsval list"
  | JObj "(string \<times> jsval) list"

text \<open>
  An exception is a value. \<open>TypeError\<close> is what the runtime raises on a property read of
  \<^verbatim>\<open>undefined\<close> or \<^verbatim>\<open>null\<close> and what \<^verbatim>\<open>tryNumberParse\<close> raises; \<open>Thrown\<close> is any exception
  that a collaborator (the token library, a session hook, \<^verbatim>\<open>fetch\<close>, the body parser, the
  user-data fetch) raises, with its message.
\<close>

datatype error = TypeError string | Thrown string

text \<open>\<^verbatim>\<open>isNullish\<close> of \<^verbatim>\<open>@sapphire/utilities\<close>: \<^verbatim>\<open>value === undefined || value === null\<close>.\<close>

fun isNullish :: "jsval \<Rightarrow> bool" where
  "isNullish JUndefined = True"
| "isNullish JNull = True"
| "isNullish _ = False"

text \<open>JavaScript truthiness, as \<^verbatim>\<open>if (x)\<close> and \<^verbatim>\<open>!x\<close> test it.\<close>

fun truthy :: "jsval \<Rightarrow> bool" where
  "truthy JUndefined = False"
| "truthy JNull = False"
| "truthy (JBool b) = b"
| "truthy (JNum n) = (n \<noteq> 0)"
| "truthy (JStr s) = (s \<noteq> [])"
| "truthy (JArr _) = True"
| "truthy (JObj _) = True"

text \<open>
  The property read \<^verbatim>\<open>v.k\<close>: a \<open>TypeError\<close> on \<^verbatim>\<open>undefined\<close> and \<^verbatim>\<open>null\<close>, the stored value of
  an object that has the property, and \<^verbatim>\<open>undefined\<close> otherwise (the property names this
  program reads are not built-in properties of primitives or arrays).
\<close>

fun prop_get :: "jsval \<Rightarrow> string \<Rightarrow> error + jsval" where
  "prop_get JUndefined k = Inl (TypeError (''Cannot read properties of undefined (reading '' @ k @ '')''))"
| "prop_get JNull k = Inl (TypeError (''Cannot read properties of null (reading '' @ k @ '')''))"
| "prop_get (JObj kvs) k = Inr (case map_of kvs k of None \<Rightarrow> JUndefined | Some v \<Rightarrow> v)"
| "prop_get _ k = Inr JUndefined"


text \<open>The \<^verbatim>\<open>Algorithm\<close> type of \<^verbatim>\<open>jsonwebtoken\<close>.\<close>

datatype algorithm =
    HS256 | HS384 | HS512
  | RS256 | RS384 | RS512
  | ES256 | ES384 | ES512
  | PS256 | PS384 | PS512
  | none

text \<open>The fields of \<^verbatim>\<open>jwt.SignOptions\<close> that \<^verbatim>\<open>encrypt\<close> sets.\<close>

record sign_options =
  opt_algorithm :: algorithm
  opt_expiresIn :: string
  opt_issuer :: "string option"

text \<open>The second parameter of \<^verbatim>\<open>decrypt\<close>: \<^verbatim>\<open>'access_token' | 'refresh_token'\<close>.\<close>

datatype token_type = AccessToken | RefreshToken

fun token_type_key :: "token_type \<Rightarrow> string" where
  "token_type_key AccessToken = ''access_token''"
| "token_type_key RefreshToken = ''refresh_token''"

text \<open>The second parameter of \<^verbatim>\<open>auth\<close> and \<^verbatim>\<open>authOrRefresh\<close>: \<^verbatim>\<open>'code' | 'refresh'\<close>.\<close>

datatype grant_type = Code | Refresh

text \<open>
  \<^verbatim>\<open>PersistSessionsHooks\<close>: each hook is optional, asynchronous, acts on a store outside the
  manager (the world \<open>'w\<close>, which also holds the clock) and may raise.
\<close>

record 'w persist_sessions_hooks =
  create :: "(jsval \<Rightarrow> 'w \<Rightarrow> (error + jsval) \<times> 'w) option"
  get :: "(string \<Rightarrow> token_type \<Rightarrow> 'w \<Rightarrow> (error + jsval) \<times> 'w) option"
  delete :: "(string \<Rightarrow> 'w \<Rightarrow> (error + jsval) \<times> 'w) option"

text \<open>The request that \<^verbatim>\<open>authOrRefresh\<close> hands to \<^verbatim>\<open>fetch\<close>, and the response it reads.\<close>

record request =
  req_method :: string
  req_body :: string
  req_headers :: "(string \<times> string) list"

record response =
  ok :: bool
  json :: "error + jsval"

text \<open>\<^verbatim>\<open>container.server.auth\<close>: the OAuth2 application and the user-data fetch.\<close>

record 'w server_auth =
  auth_id :: string
  auth_secret :: string
  auth_redirect :: "string option"
  fetchData :: "jsval \<Rightarrow> 'w \<Rightarrow> (error + jsval) \<times> 'w"

text \<open>
  Everything the module imports or finds in the framework's container. \<open>jwt_sign\<close> and
  \<open>jwt_verify\<close> are \<^verbatim>\<open>jwt.sign\<close> and \<^verbatim>\<open>jwt.verify\<close>; both read the clock, which is their last
  argument here (milliseconds), and both may throw. \<open>server\<close> is \<^verbatim>\<open>container.server\<close> (the
  same object as \<^verbatim>\<open>container.client.server\<close>) reduced to its \<^verbatim>\<open>auth\<close> property: \<open>None\<close> when
  there is no server, \<open>Some None\<close> when the server has no \<^verbatim>\<open>auth\<close>.
\<close>

record 'w env =
  jwt_sign :: "jsval \<Rightarrow> string \<Rightarrow> sign_options \<Rightarrow> int \<Rightarrow> error + string"
  jwt_verify :: "string \<Rightarrow> string \<Rightarrow> int \<Rightarrow> error + jsval"
  Date_now :: "'w \<Rightarrow> int"
  fetch :: "string \<Rightarrow> request \<Rightarrow> 'w \<Rightarrow> (error + response) \<times> 'w"
  stringify :: "jsval \<Rightarrow> string"
  tokenURL :: string
  server :: "'w server_auth option option"

text \<open>Every call of a collaborator that acts outside the manager is recorded.\<close>

datatype event =
    HookCreate jsval
  | HookGet string token_type
  | HookDelete string
  | Fetch string request
  | FetchData jsval
  | LoggerError jsval

section \<open>The token manager\<close>

text \<open>The four private fields of \<^verbatim>\<open>Client\<close>.\<close>

record 'w client =
  issuer :: "string option"
  secret :: string
  algorithm :: algorithm
  sessionsHooks :: "'w persist_sessions_hooks option"

text \<open>\<^verbatim>\<open>ClientOptions\<close>, as the constructor reads it.\<close>

record 'w client_options =
  options_issuer :: "string option"
  options_sessionsHooks :: "'w persist_sessions_hooks option"
  options_algorithm :: "algorithm option"

text \<open>
  The state a method runs in and returns: the object itself, the world outside it, and
  the trace of collaborator calls so far. Hooks and the other collaborators act on the
  world; the private fields of the object are out of their reach.
\<close>

record 'w state =
  this :: "'w client"
  world :: "'w"
  trace :: "event list"

text \<open>The constructor (lines 21 to 30).\<close>

definition Client :: "'w env \<Rightarrow> 'w client_options \<Rightarrow> 'w client" where
  "Client env options =
     \<lparr> issuer = options_issuer options,
       secret = (case server env of
                   None \<Rightarrow> ''NEKO-PLUGINS''
                 | Some None \<Rightarrow> ''NEKO-PLUGINS''
                 | Some (Some a) \<Rightarrow> auth_secret a),
       algorithm = (case options_algorithm options of None \<Rightarrow> HS512 | Some a \<Rightarrow> a),
       sessionsHooks = options_sessionsHooks options \<rparr>"

text \<open>\<^verbatim>\<open>this.sessionsHooks?.create\<close>, \<^verbatim>\<open>?.get\<close> and \<^verbatim>\<open>?.delete\<close>.\<close>

definition hooks_create :: "'w client \<Rightarrow> (jsval \<Rightarrow> 'w \<Rightarrow> (error + jsval) \<times> 'w) option" where
  "hooks_create c = (case sessionsHooks c of None \<Rightarrow> None | Some h \<Rightarrow> create h)"

definition hooks_get :: "'w client \<Rightarrow> (string \<Rightarrow> token_type \<Rightarrow> 'w \<Rightarrow> (error + jsval) \<times> 'w) option" where
  "hooks_get c = (case sessionsHooks c of None \<Rightarrow> None | Some h \<Rightarrow> get h)"

definition hooks_delete :: "'w client \<Rightarrow> (string \<Rightarrow> 'w \<Rightarrow> (error + jsval) \<times> 'w) option" where
  "hooks_delete c = (case sessionsHooks c of None \<Rightarrow> None | Some h \<Rightarrow> delete h)"

text \<open>
  Lines 33 and 34: the options of the access token. \<^verbatim>\<open>if (this.issuer)\<close> tests truthiness,
  so an empty string does not set the issuer.
\<close>

definition sign_options_of :: "'w client \<Rightarrow> sign_options" where
  "sign_options_of c =
     (let options = \<lparr> opt_algorithm = algorithm c, opt_expiresIn = ''4d'', opt_issuer = None \<rparr>
      in case issuer c of
           None \<Rightarrow> options
         | Some i \<Rightarrow> if truthy (JStr i) then options\<lparr> opt_issuer := Some i \<rparr> else options)"

text \<open>Line 38: the object literal signed as the refresh token, read from \<^verbatim>\<open>payload.auth\<close>.\<close>

definition refresh_payload :: "jsval \<Rightarrow> error + jsval" where
  "refresh_payload payload =
     (case prop_get payload ''auth'' of
        Inl e \<Rightarrow> Inl e
      | Inr a \<Rightarrow>
          (case prop_get a ''scope'' of
             Inl e \<Rightarrow> Inl e
           | Inr sc \<Rightarrow>
               (case prop_get a ''refresh_token'' of
                  Inl e \<Rightarrow> Inl e
                | Inr rt \<Rightarrow>
                    (case prop_get a ''token_type'' of
                       Inl e \<Rightarrow> Inl e
                     | Inr tt \<Rightarrow>
                         Inr (JObj [(''data'',
                                JObj [(''scope'', sc), (''refresh_token'', rt), (''token_type'', tt)])])))))"

text \<open>Line 50: the returned object; the clock is read here.\<close>

definition token_pair :: "string \<Rightarrow> string \<Rightarrow> int \<Rightarrow> jsval" where
  "token_pair accessToken refresToken now =
     JObj [(''access_token'', JStr accessToken), (''refresh_token'', JStr refresToken),
           (''expires_in'', JNum (now + 345600000)), (''token_type'', JStr ''Bearer'')]"

text \<open>
  \<^verbatim>\<open>encrypt\<close> (lines 32 to 51). Both tokens are signed before the hook runs, at the clock
  of the call; the \<^verbatim>\<open>create\<close> hook is awaited; \<^verbatim>\<open>Date.now()\<close> is read after it.
\<close>

definition encrypt :: "'w env \<Rightarrow> jsval \<Rightarrow> 'w state \<Rightarrow> (error + jsval) \<times> 'w state" where
  "encrypt env payload s =
     (let c = this s; options = sign_options_of c in
      case jwt_sign env payload (secret c) options (Date_now env (world s)) of
        Inl e \<Rightarrow> (Inl e, s)
      | Inr accessToken \<Rightarrow>
          (case refresh_payload payload of
             Inl e \<Rightarrow> (Inl e, s)
           | Inr rp \<Rightarrow>
               (case jwt_sign env rp (secret c) (options\<lparr> opt_expiresIn := ''7d'' \<rparr>)
                       (Date_now env (world s)) of
                  Inl e \<Rightarrow> (Inl e, s)
                | Inr refresToken \<Rightarrow>
                    (case hooks_create c of
                       None \<Rightarrow>
                         (Inr (token_pair accessToken refresToken (Date_now env (world s))), s)
                     | Some hook \<Rightarrow>
                         (let arg = JObj [(''access_token'', JStr accessToken),
                                          (''refresh_token'', JStr refresToken),
                                          (''data'', payload)];
                              s1 = s\<lparr> trace := trace s @ [HookCreate arg] \<rparr>
                          in case hook arg (world s) of
                               (Inl e, w) \<Rightarrow> (Inl e, s1\<lparr> world := w \<rparr>)
                             | (Inr _, w) \<Rightarrow>
                                 (Inr (token_pair accessToken refresToken (Date_now env w)),
                                  s1\<lparr> world := w \<rparr>))))))"

text \<open>
  \<^verbatim>\<open>Result.from\<close> of \<^verbatim>\<open>@sapphire/framework\<close> runs the callback and catches what it throws:
  the result is the sum itself. \<^verbatim>\<open>isErr\<close> and \<^verbatim>\<open>unwrapOr\<close> are its two methods used here.
\<close>

fun isErr :: "error + jsval \<Rightarrow> bool" where
  "isErr (Inl _) = True"
| "isErr (Inr _) = False"

fun unwrapOr :: "error + jsval \<Rightarrow> jsval \<Rightarrow> jsval" where
  "unwrapOr (Inl _) d = d"
| "unwrapOr (Inr v) d = v"

text \<open>\<^verbatim>\<open>decrypt\<close> (lines 53 to 65).\<close>

definition decrypt :: "'w env \<Rightarrow> string \<Rightarrow> token_type \<Rightarrow> 'w state \<Rightarrow> (error + jsval) \<times> 'w state" where
  "decrypt env token type s =
     (let data = jwt_verify env token (secret (this s)) (Date_now env (world s)) in
      if isErr data then (Inr JNull, s)
      else case hooks_get (this s) of
             Some hook \<Rightarrow>
               (let s1 = s\<lparr> trace := trace s @ [HookGet token type] \<rparr> in
                case hook token type (world s) of
                  (Inl e, w) \<Rightarrow> (Inl e, s1\<lparr> world := w \<rparr>)
                | (Inr session, w) \<Rightarrow>
                    if \<not> truthy session then (Inr JNull, s1\<lparr> world := w \<rparr>)
                    else (case prop_get session ''access_token'' of
                            Inl e \<Rightarrow> (Inl e, s1\<lparr> world := w \<rparr>)
                          | Inr a \<Rightarrow>
                              (case prop_get session ''refresh_token'' of
                                 Inl e \<Rightarrow> (Inl e, s1\<lparr> world := w \<rparr>)
                               | Inr r \<Rightarrow>
                                   (Inr (JObj [(''data'', unwrapOr data JNull),
                                               (''access_token'', a), (''refresh_token'', r)]),
                                    s1\<lparr> world := w \<rparr>))))
           | None \<Rightarrow>
               (Inr (JObj [(''data'', unwrapOr data JNull), (token_type_key type, JStr token)]), s))"

text \<open>\<^verbatim>\<open>signOut\<close> (lines 67 to 73).\<close>

definition signOut :: "'w env \<Rightarrow> string \<Rightarrow> 'w state \<Rightarrow> (error + jsval) \<times> 'w state" where
  "signOut env accessToken s =
     (case hooks_delete (this s) of
        Some hook \<Rightarrow>
          (let s1 = s\<lparr> trace := trace s @ [HookDelete accessToken] \<rparr> in
           case hook accessToken (world s) of
             (Inl e, w) \<Rightarrow> (Inl e, s1\<lparr> world := w \<rparr>)
           | (Inr _, w) \<Rightarrow> (Inr (JBool True), s1\<lparr> world := w \<rparr>))
      | None \<Rightarrow> (Inr (JBool True), s))"

text \<open>Lines 88 to 102: the form fields, in the order the properties are added.\<close>

definition form_data :: "'w server_auth \<Rightarrow> string \<Rightarrow> grant_type \<Rightarrow> string option \<Rightarrow> jsval" where
  "form_data a tokenOrCode grantType redirectUri =
     JObj ([(''client_id'', JStr (auth_id a)), (''client_secret'', JStr (auth_secret a))]
           @ (if grantType = Code
              then [(''code'', JStr tokenOrCode), (''grant_type'', JStr ''authorization_code''),
                    (''redirect_uri'',
                       (case auth_redirect a of
                          Some r \<Rightarrow> JStr r
                        | None \<Rightarrow> (case redirectUri of Some r \<Rightarrow> JStr r | None \<Rightarrow> JUndefined)))]
              else [])
           @ (if grantType = Refresh
              then [(''refresh_token'', JStr tokenOrCode), (''grant_type'', JStr ''refresh_token'')]
              else []))"

text \<open>
  \<^verbatim>\<open>authOrRefresh\<close> (lines 85 to 117); \<open>token_request\<close> is the second argument of
  \<^verbatim>\<open>fetch\<close> (lines 105 to 109). Destructuring \<^verbatim>\<open>container.server.auth!\<close> raises a
  \<open>TypeError\<close> when there is no server or no \<^verbatim>\<open>auth\<close>; a rejected \<^verbatim>\<open>fetch\<close> and a body that
  does not parse raise too: the method has no handler. The body is parsed before
  \<^verbatim>\<open>result.ok\<close> is looked at.
\<close>

definition token_request :: "'w env \<Rightarrow> 'w server_auth \<Rightarrow> string \<Rightarrow> grant_type \<Rightarrow> string option \<Rightarrow> request" where
  "token_request env a tokenOrCode grantType redirectUri =
     \<lparr> req_method = ''POST'',
       req_body = stringify env (form_data a tokenOrCode grantType redirectUri),
       req_headers = [(''content-type'', ''application/x-www-form-urlencoded'')] \<rparr>"

definition authOrRefresh ::
  "'w env \<Rightarrow> string \<Rightarrow> grant_type \<Rightarrow> string option \<Rightarrow> 'w state \<Rightarrow> (error + jsval) \<times> 'w state" where
  "authOrRefresh env tokenOrCode grantType redirectUri s =
     (case server env of
        None \<Rightarrow> (Inl (TypeError ''Cannot read properties of undefined (reading auth)''), s)
      | Some None \<Rightarrow> (Inl (TypeError ''Cannot destructure property id of undefined''), s)
      | Some (Some a) \<Rightarrow>
          (let req = token_request env a tokenOrCode grantType redirectUri;
               s1 = s\<lparr> trace := trace s @ [Fetch (tokenURL env) req] \<rparr>
           in case fetch env (tokenURL env) req (world s) of
                (Inl e, w) \<Rightarrow> (Inl e, s1\<lparr> world := w \<rparr>)
              | (Inr result, w) \<Rightarrow>
                  (case json result of
                     Inl e \<Rightarrow> (Inl e, s1\<lparr> world := w \<rparr>)
                   | Inr body \<Rightarrow>
                       if ok result then (Inr body, s1\<lparr> world := w \<rparr>)
                       else (Inr JNull,
                             s1\<lparr> world := w, trace := trace s1 @ [LoggerError body] \<rparr>))))"

text \<open>
  \<^verbatim>\<open>auth\<close> (lines 75 to 83). \<^verbatim>\<open>container.server.auth?.fetchData(authData.access_token)\<close> is
  \<^verbatim>\<open>undefined\<close>, with nothing called, when the server has no \<^verbatim>\<open>auth\<close>.
\<close>

definition auth ::
  "'w env \<Rightarrow> string \<Rightarrow> grant_type \<Rightarrow> string option \<Rightarrow> 'w state \<Rightarrow> (error + jsval) \<times> 'w state" where
  "auth env code grantType redirectUri s =
     (case authOrRefresh env code grantType redirectUri s of
        (Inl e, s1) \<Rightarrow> (Inl e, s1)
      | (Inr authData, s1) \<Rightarrow>
          if isNullish authData then (Inr JNull, s1)
          else (case server env of
                  None \<Rightarrow> (Inl (TypeError ''Cannot read properties of undefined (reading auth)''), s1)
                | Some None \<Rightarrow> (Inr JNull, s1)
                | Some (Some a) \<Rightarrow>
                    (case prop_get authData ''access_token'' of
                       Inl e \<Rightarrow> (Inl e, s1)
                     | Inr t \<Rightarrow>
                         (let s2 = s1\<lparr> trace := trace s1 @ [FetchData t] \<rparr> in
                          case fetchData a t (world s1) of
                            (Inl e, w) \<Rightarrow> (Inl e, s2\<lparr> world := w \<rparr>)
                          | (Inr userData, w) \<Rightarrow>
                              if isNullish userData then (Inr JNull, s2\<lparr> world := w \<rparr>)
                              else (Inr (JObj [(''auth'', authData), (''user'', userData)]),
                                    s2\<lparr> world := w \<rparr>)))))"

text \<open>
  What a user of the manager can do with it, one call after the other; a caller that
  catches an exception goes on with the state the failed call left.
\<close>

datatype call =
    Encrypt jsval
  | Decrypt string token_type
  | SignOut string
  | Auth string grant_type "string option"
  | AuthOrRefresh string grant_type "string option"

fun perform :: "'w env \<Rightarrow> call \<Rightarrow> 'w state \<Rightarrow> (error + jsval) \<times> 'w state" where
  "perform env (Encrypt payload) s = encrypt env payload s"
| "perform env (Decrypt token type) s = decrypt env token type s"
| "perform env (SignOut accessToken) s = signOut env accessToken s"
| "perform env (Auth code grantType redirectUri) s = auth env code grantType redirectUri s"
| "perform env (AuthOrRefresh tokenOrCode grantType redirectUri) s =
     authOrRefresh env tokenOrCode grantType redirectUri s"

fun perform_all :: "'w env \<Rightarrow> call list \<Rightarrow> 'w state \<Rightarrow> 'w state" where
  "perform_all env [] s = s"
| "perform_all env (c # cs) s = perform_all env cs (snd (perform env c s))"

section \<open>The number parser of the metrics plugin\<close>

text \<open>
  A JavaScript number is \<^verbatim>\<open>NaN\<close> or a value other than \<^verbatim>\<open>NaN\<close>; \<^verbatim>\<open>Number.isNaN\<close> tells them
  apart. The conversion \<^verbatim>\<open>Number(value)\<close> of a string is the runtime's and is a parameter.
\<close>

datatype 'f number = NaN | Value 'f

fun Number_isNaN :: "'f number \<Rightarrow> bool" where
  "Number_isNaN NaN = True"
| "Number_isNaN (Value _) = False"

text \<open>
  \<^verbatim>\<open>tryNumberParse\<close> (lines 4 to 12 of \<^verbatim>\<open>common.ts\<close>). The argument is a string or
  \<^verbatim>\<open>undefined\<close> (\<open>None\<close>); the result is a number or \<^verbatim>\<open>undefined\<close> (\<open>None\<close>).
\<close>

definition tryNumberParse :: "(string \<Rightarrow> 'f number) \<Rightarrow> string option \<Rightarrow> error + 'f number option" where
  "tryNumberParse Number value =
     (case value of
        Some v \<Rightarrow>
          (let number = Number v in
           if Number_isNaN number then Inl (TypeError (''Could not parse '' @ v @ '' to a number''))
           else Inr (Some number))
      | None \<Rightarrow> Inr None)"

section \<open>Notions the properties are stated with\<close>

text \<open>The property \<open>k\<close> of the object a method returned; the exception if it raised.\<close>

definition result_prop :: "(error + jsval) \<times> 'w state \<Rightarrow> string \<Rightarrow> error + jsval" where
  "result_prop r k = (case fst r of Inl e \<Rightarrow> Inl e | Inr v \<Rightarrow> prop_get v k)"

text \<open>The arguments of the calls of the user-data fetch in a trace, in order.\<close>

fun fetchData_calls :: "event list \<Rightarrow> jsval list" where
  "fetchData_calls [] = []"
| "fetchData_calls (FetchData t # es) = t # fetchData_calls es"
| "fetchData_calls (_ # es) = fetchData_calls es"







text \<open>The two time spans \<^verbatim>\<open>encrypt\<close> passes as \<^verbatim>\<open>expiresIn\<close>, in seconds.\<close>

definition span_seconds :: "string \<Rightarrow> int option" where
  "span_seconds e =
     (if e = ''4d'' then Some 345600 else if e = ''7d'' then Some 604800 else None)"

text \<open>
  The algorithms \<^verbatim>\<open>jwt.verify(token, secret)\<close>, called without options as on line 54,
  accepts for a secret that is a string: the three HMAC ones. A token signed with
  \<^verbatim>\<open>none\<close> has no signature and is refused; the others need an asymmetric key to sign.
\<close>

fun is_HMAC :: "algorithm \<Rightarrow> bool" where
  "is_HMAC HS256 = True"
| "is_HMAC HS384 = True"
| "is_HMAC HS512 = True"
| "is_HMAC _ = False"


section \<open>A concrete environment\<close>

text \<open>
  A world that is only a clock, a token library that knows four payloads and writes the
  signing secret, the kind and the options into the token, and hooks over a store that
  always holds one session. Each collaborator call takes some milliseconds.
\<close>

definition demo_payload :: jsval where
  "demo_payload =
     JObj [(''auth'', JObj [(''access_token'', JStr ''provider-access''),
                            (''token_type'', JStr ''Bearer''),
                            (''expires_in'', JNum 604800),
                            (''refresh_token'', JStr ''provider-refresh''),
                            (''scope'', JStr ''identify'')]),
           (''user'', JObj [(''id'', JStr ''42'')])]"

definition demo_refresh_payload :: jsval where
  "demo_refresh_payload =
     JObj [(''data'', JObj [(''scope'', JStr ''identify''),
                            (''refresh_token'', JStr ''provider-refresh''),
                            (''token_type'', JStr ''Bearer'')])]"

text \<open>The same session with an issue time of its own: second 5 of 1970.\<close>

definition backdated_payload :: jsval where
  "backdated_payload =
     JObj [(''iat'', JNum 5),
           (''auth'', JObj [(''access_token'', JStr ''provider-access''),
                            (''token_type'', JStr ''Bearer''),
                            (''expires_in'', JNum 604800),
                            (''refresh_token'', JStr ''provider-refresh''),
                            (''scope'', JStr ''identify'')]),
           (''user'', JObj [(''id'', JStr ''42'')])]"

text \<open>The same session with a not-before time of its own: the first second of 2100.\<close>

definition postdated_payload :: jsval where
  "postdated_payload =
     JObj [(''nbf'', JNum 4102444800),
           (''auth'', JObj [(''access_token'', JStr ''provider-access''),
                            (''token_type'', JStr ''Bearer''),
                            (''expires_in'', JNum 604800),
                            (''refresh_token'', JStr ''provider-refresh''),
                            (''scope'', JStr ''identify'')]),
           (''user'', JObj [(''id'', JStr ''42'')])]"

definition demo_options :: "sign_options \<Rightarrow> string" where
  "demo_options opts =
     opt_expiresIn opts @ (case opt_issuer opts of None \<Rightarrow> [] | Some i \<Rightarrow> ''.iss='' @ i)"

text \<open>
  Signing, as the library does it with a secret that is a string: an asymmetric algorithm
  throws, an HMAC algorithm signs with the secret, \<^verbatim>\<open>none\<close> leaves the signature empty.
\<close>

definition demo_sign :: "jsval \<Rightarrow> string \<Rightarrow> sign_options \<Rightarrow> int \<Rightarrow> error + string" where
  "demo_sign p sec opts t =
     (if \<not> is_HMAC (opt_algorithm opts) \<and> opt_algorithm opts \<noteq> none
      then Inl (Thrown ''secretOrPrivateKey must be an asymmetric key'')
      else if sec = [] \<and> opt_algorithm opts \<noteq> none
      then Inl (Thrown ''secretOrPrivateKey must have a value'')
      else (let signature = (if opt_algorithm opts = none then [] else sec) in
            if p = demo_payload then Inr (signature @ ''.access.'' @ demo_options opts)
            else if p = demo_refresh_payload
            then Inr (signature @ ''.refresh.'' @ demo_options opts)
            else if p = backdated_payload
            then Inr (signature @ ''.backdated.'' @ demo_options opts)
            else if p = postdated_payload
            then Inr (signature @ ''.postdated.'' @ demo_options opts)
            else Inl (Thrown ''payload not known'')))"

text \<open>
  Verifying: the signature must be the secret's. A token of the clock-stamped payloads is
  taken at any time; a token of the backdated payload expires its span after second 5;
  a token of the postdated payload is not active before its not-before time.
\<close>

definition demo_verify :: "string \<Rightarrow> string \<Rightarrow> int \<Rightarrow> error + jsval" where
  "demo_verify tok sec t =
     (if sec = [] then Inl (Thrown ''secret or public key must be provided'')
      else if take (length sec + 8) tok = sec @ ''.access.'' then Inr demo_payload
      else if take (length sec + 9) tok = sec @ ''.refresh.'' then Inr demo_refresh_payload
      else if take (length sec + 11) tok = sec @ ''.backdated.''
      then (case span_seconds (take 2 (drop (length sec + 11) tok)) of
              None \<Rightarrow> Inl (Thrown ''jwt malformed'')
            | Some n \<Rightarrow>
                if t div 1000 < 5 + n then Inr backdated_payload
                else Inl (Thrown ''jwt expired''))
      else if take (length sec + 11) tok = sec @ ''.postdated.''
      then (if t div 1000 < 4102444800 then Inl (Thrown ''jwt not active'')
            else Inr postdated_payload)
      else Inl (Thrown ''invalid signature''))"

fun demo_stringify :: "jsval \<Rightarrow> string" where
  "demo_stringify (JObj kvs) =
     concat (map (\<lambda>(k, v). k @ ''='' @ (case v of JStr x \<Rightarrow> x | _ \<Rightarrow> []) @ ''&'') kvs)"
| "demo_stringify _ = []"

definition demo_fetchData :: "jsval \<Rightarrow> int \<Rightarrow> (error + jsval) \<times> int" where
  "demo_fetchData t w = (Inr (JObj [(''id'', JStr ''42'')]), w + 20)"

definition demo_auth :: "int server_auth" where
  "demo_auth = \<lparr> auth_id = ''1234'', auth_secret = ''app-secret'', auth_redirect = None,
                 fetchData = demo_fetchData \<rparr>"

text \<open>The token endpoint refuses every grant: status 400 with a JSON error body.\<close>

definition demo_fetch :: "string \<Rightarrow> request \<Rightarrow> int \<Rightarrow> (error + response) \<times> int" where
  "demo_fetch url req w =
     (Inr \<lparr> ok = False, json = Inr (JObj [(''error'', JStr ''invalid_grant'')]) \<rparr>, w + 30)"

definition demo_env :: "int env" where
  "demo_env =
     \<lparr> jwt_sign = demo_sign, jwt_verify = demo_verify, Date_now = (\<lambda>w. w),
       fetch = demo_fetch, stringify = demo_stringify,
       tokenURL = ''https://discord.com/api/v10/oauth2/token'',
       server = Some (Some demo_auth) \<rparr>"

text \<open>The token endpoint grants: status 200 with the provider's token response.\<close>

definition granting_fetch :: "string \<Rightarrow> request \<Rightarrow> int \<Rightarrow> (error + response) \<times> int" where
  "granting_fetch url req w =
     (Inr \<lparr> ok = True,
            json = Inr (JObj [(''access_token'', JStr ''provider-access''),
                              (''token_type'', JStr ''Bearer''),
                              (''expires_in'', JNum 604800),
                              (''refresh_token'', JStr ''provider-refresh''),
                              (''scope'', JStr ''identify'')]) \<rparr>,
      w + 30)"

definition granting_env :: "int env" where
  "granting_env = demo_env\<lparr> fetch := granting_fetch \<rparr>"

text \<open>The network is down: \<^verbatim>\<open>fetch\<close> rejects.\<close>

definition offline_fetch :: "string \<Rightarrow> request \<Rightarrow> int \<Rightarrow> (error + response) \<times> int" where
  "offline_fetch url req w = (Inl (Thrown ''fetch failed''), w + 30)"

definition offline_env :: "int env" where
  "offline_env = demo_env\<lparr> fetch := offline_fetch \<rparr>"

text \<open>A manager without hooks, and the state of a first call.\<close>

definition demo_client :: "int client" where
  "demo_client =
     Client demo_env
       \<lparr> options_issuer = None, options_sessionsHooks = None, options_algorithm = None \<rparr>"

definition demo_state :: "int state" where
  "demo_state = \<lparr> this = demo_client, world = 1700000000000, trace = [] \<rparr>"

text \<open>A manager configured with the empty string as issuer.\<close>

definition empty_issuer_state :: "int state" where
  "empty_issuer_state = demo_state\<lparr> this := demo_client\<lparr> issuer := Some [] \<rparr> \<rparr>"


text \<open>A manager configured with an issuer.\<close>

definition named_issuer_state :: "int state" where
  "named_issuer_state = demo_state\<lparr> this := demo_client\<lparr> issuer := Some ''neko'' \<rparr> \<rparr>"

text \<open>Hooks over a store that holds one session, whatever the token.\<close>

definition stored_session :: jsval where
  "stored_session =
     JObj [(''access_token'', JStr ''stored-access''), (''refresh_token'', JStr ''stored-refresh''),
           (''data'', demo_payload)]"

definition demo_create :: "jsval \<Rightarrow> int \<Rightarrow> (error + jsval) \<times> int" where
  "demo_create session w = (Inr JUndefined, w + 1000)"

definition demo_get :: "string \<Rightarrow> token_type \<Rightarrow> int \<Rightarrow> (error + jsval) \<times> int" where
  "demo_get token type w = (Inr stored_session, w + 5)"

definition demo_delete :: "string \<Rightarrow> int \<Rightarrow> (error + jsval) \<times> int" where
  "demo_delete token w = (Inr JUndefined, w + 7)"

definition hooked_state :: "int state" where
  "hooked_state =
     demo_state\<lparr> this := demo_client\<lparr> sessionsHooks :=
       Some \<lparr> create = Some demo_create, get = Some demo_get, delete = Some demo_delete \<rparr> \<rparr> \<rparr>"

text \<open>The store is unreachable: the \<^verbatim>\<open>delete\<close> hook rejects.\<close>

definition failing_delete :: "string \<Rightarrow> int \<Rightarrow> (error + jsval) \<times> int" where
  "failing_delete token w = (Inl (Thrown ''session store unavailable''), w + 7)"

definition failing_state :: "int state" where
  "failing_state =
     demo_state\<lparr> this := demo_client\<lparr> sessionsHooks :=
       Some \<lparr> create = None, get = None, delete = Some failing_delete \<rparr> \<rparr> \<rparr>"

text \<open>
  A conversion for \<^verbatim>\<open>tryNumberParse\<close> that reads unsigned decimal numerals, the empty
  string as 0 (as \<^verbatim>\<open>Number('')\<close> is), and everything else as \<^verbatim>\<open>NaN\<close>.
\<close>

definition digit_value :: "char \<Rightarrow> int option" where
  "digit_value c =
     (let n = of_char c :: int in if 48 \<le> n \<and> n \<le> 57 then Some (n - 48) else None)"

fun decimal_from :: "int \<Rightarrow> string \<Rightarrow> int number" where
  "decimal_from acc [] = Value acc"
| "decimal_from acc (c # cs) =
     (case digit_value c of None \<Rightarrow> NaN | Some d \<Rightarrow> decimal_from (10 * acc + d) cs)"

definition Number_decimal :: "string \<Rightarrow> int number" where
  "Number_decimal v = decimal_from 0 v"

section \<open>Facts about the model\<close>

lemma fetchData_calls_append:
  "fetchData_calls (xs @ ys) = fetchData_calls xs @ fetchData_calls ys"
  by (induction xs rule: fetchData_calls.induct) simp_all

lemma encrypt_this: "this (snd (encrypt env payload s)) = this s"
  by (simp add: encrypt_def Let_def split: sum.splits option.splits prod.splits)

lemma decrypt_this: "this (snd (decrypt env token type s)) = this s"
  by (simp add: decrypt_def Let_def split: sum.splits option.splits prod.splits)

lemma signOut_this: "this (snd (signOut env accessToken s)) = this s"
  by (simp add: signOut_def Let_def split: sum.splits option.splits prod.splits)

lemma authOrRefresh_this:
  "this (snd (authOrRefresh env tokenOrCode grantType redirectUri s)) = this s"
  by (simp add: authOrRefresh_def Let_def split: sum.splits option.splits prod.splits)

lemma authOrRefresh_fetchData_calls:
  "fetchData_calls (trace (snd (authOrRefresh env tokenOrCode grantType redirectUri s)))
   = fetchData_calls (trace s)"
  by (simp add: authOrRefresh_def Let_def fetchData_calls_append
      split: sum.splits option.splits prod.splits)

lemma auth_this: "this (snd (auth env code grantType redirectUri s)) = this s"
proof -
  obtain r s1 where ar: "authOrRefresh env code grantType redirectUri s = (r, s1)"
    by (cases "authOrRefresh env code grantType redirectUri s")
  then have "this s1 = this s"
    using authOrRefresh_this [of env code grantType redirectUri s] by simp
  then show ?thesis
    by (simp add: auth_def ar Let_def split: sum.splits option.splits prod.splits)
qed

lemma perform_this: "this (snd (perform env c s)) = this s"
  by (cases c) (simp_all add: encrypt_this decrypt_this signOut_this auth_this authOrRefresh_this)

lemma truthy_prop_get: "truthy v \<Longrightarrow> \<exists>x. prop_get v k = Inr x"
  by (cases v) simp_all

text \<open>The concrete manager and its states, evaluated.\<close>

lemma demo_client_eq:
  "demo_client =
     \<lparr> issuer = None, secret = ''app-secret'', algorithm = HS512, sessionsHooks = None \<rparr>"
  by (simp add: demo_client_def Client_def demo_env_def demo_auth_def)

lemma demo_env_simps:
  "jwt_sign demo_env = demo_sign" "jwt_verify demo_env = demo_verify" "Date_now demo_env w = w"
  "fetch demo_env = demo_fetch" "stringify demo_env = demo_stringify"
  "server demo_env = Some (Some demo_auth)"
  by (simp_all add: demo_env_def)

lemma demo_state_simps:
  "this demo_state = demo_client" "world demo_state = 1700000000000" "trace demo_state = []"
  by (simp_all add: demo_state_def)

lemma demo_refresh_payload_eq: "refresh_payload demo_payload = Inr demo_refresh_payload"
  by (simp add: refresh_payload_def demo_payload_def demo_refresh_payload_def)

lemma demo_payloads_differ: "demo_refresh_payload \<noteq> demo_payload"
  by (simp add: demo_payload_def demo_refresh_payload_def)






section \<open>Verification failure in \<^verbatim>\<open>decrypt\<close>\<close>

text \<open>
  C4. For every token whose verification against the configured secret fails (the call of
  \<^verbatim>\<open>jwt.verify\<close> throws: bad signature, malformed or expired token), \<^verbatim>\<open>decrypt\<close> returns
  \<^verbatim>\<open>null\<close> and raises nothing, for both kinds of token; nothing else happens in the call.
\<close>

theorem decrypt_verification_failure:
  "isErr (jwt_verify env token (secret (this s)) (Date_now env (world s)))
   \<Longrightarrow> decrypt env token type s = (Inr JNull, s)"
  by (simp add: decrypt_def)

theorem decrypt_verification_failure_witness:
  "isErr (jwt_verify demo_env ''forged'' (secret (this demo_state))
            (Date_now demo_env (world demo_state)))
   \<and> decrypt demo_env ''forged'' AccessToken demo_state = (Inr JNull, demo_state)
   \<and> decrypt demo_env ''forged'' RefreshToken demo_state = (Inr JNull, demo_state)"
proof -
  have bad: "isErr (jwt_verify demo_env ''forged'' (secret (this demo_state))
                      (Date_now demo_env (world demo_state)))"
    by (simp add: demo_env_simps demo_state_simps demo_client_eq demo_verify_def)
  show ?thesis
    using bad decrypt_verification_failure [OF bad, of AccessToken]
      decrypt_verification_failure [OF bad, of RefreshToken]
    by simp
qed

text \<open>
  C1, as the claim states it, fails: with a \<^verbatim>\<open>get\<close> hook that returns a stored session for
  every token, \<^verbatim>\<open>decrypt\<close> of a token that does not verify returns \<^verbatim>\<open>null\<close>, not the hook's
  record with \<^verbatim>\<open>data: null\<close>; the hook is not called (the state is unchanged).
\<close>

theorem decrypt_hook_record_counterexample:
  "isErr (jwt_verify demo_env ''forged'' (secret (this hooked_state))
            (Date_now demo_env (world hooked_state)))
   \<and> hooks_get (this hooked_state) = Some demo_get
   \<and> fst (demo_get ''forged'' AccessToken (world hooked_state)) = Inr stored_session
   \<and> truthy stored_session
   \<and> decrypt demo_env ''forged'' AccessToken hooked_state = (Inr JNull, hooked_state)
   \<and> fst (decrypt demo_env ''forged'' AccessToken hooked_state)
       \<noteq> Inr (JObj [(''data'', JNull), (''access_token'', JStr ''stored-access''),
                    (''refresh_token'', JStr ''stored-refresh'')])"
  by (simp add: decrypt_def hooked_state_def demo_state_simps demo_client_eq demo_env_simps
      demo_verify_def hooks_get_def demo_get_def stored_session_def)

text \<open>
  C1, amended. When a \<^verbatim>\<open>get\<close> hook is configured and returns a stored session for the
  token, \<^verbatim>\<open>decrypt\<close> returns the hook's record \<^verbatim>\<open>{data, access_token, refresh_token}\<close>, with
  \<^verbatim>\<open>data\<close> the decoded payload, when the token verifies; when verification fails it returns
  \<^verbatim>\<open>null\<close> without consulting the hook.
\<close>

theorem decrypt_with_get_hook:
  assumes "hooks_get (this s) = Some hook"
    and "hook token type (world s) = (Inr session, w)"
    and "truthy session"
  shows "\<exists>a r. prop_get session ''access_token'' = Inr a
           \<and> prop_get session ''refresh_token'' = Inr r
           \<and> decrypt env token type s =
               (case jwt_verify env token (secret (this s)) (Date_now env (world s)) of
                  Inl e \<Rightarrow> (Inr JNull, s)
                | Inr d \<Rightarrow>
                    (Inr (JObj [(''data'', d), (''access_token'', a), (''refresh_token'', r)]),
                     s\<lparr> trace := trace s @ [HookGet token type], world := w \<rparr>))"
proof -
  obtain a where a: "prop_get session ''access_token'' = Inr a"
    using truthy_prop_get [OF assms(3)] by blast
  obtain r where r: "prop_get session ''refresh_token'' = Inr r"
    using truthy_prop_get [OF assms(3)] by blast
  have "decrypt env token type s =
          (case jwt_verify env token (secret (this s)) (Date_now env (world s)) of
             Inl e \<Rightarrow> (Inr JNull, s)
           | Inr d \<Rightarrow>
               (Inr (JObj [(''data'', d), (''access_token'', a), (''refresh_token'', r)]),
                s\<lparr> trace := trace s @ [HookGet token type], world := w \<rparr>))"
    using assms by (simp add: decrypt_def a r split: sum.splits)
  with a r show ?thesis by blast
qed

theorem decrypt_with_get_hook_witness:
  "hooks_get (this hooked_state) = Some demo_get
   \<and> demo_get ''app-secret.access.4d'' AccessToken (world hooked_state)
       = (Inr stored_session, 1700000000005)
   \<and> truthy stored_session
   \<and> decrypt demo_env ''app-secret.access.4d'' AccessToken hooked_state =
       (Inr (JObj [(''data'', demo_payload), (''access_token'', JStr ''stored-access''),
                   (''refresh_token'', JStr ''stored-refresh'')]),
        hooked_state\<lparr> trace := [HookGet ''app-secret.access.4d'' AccessToken],
                      world := 1700000000005 \<rparr>)"
proof -
  have h: "hooks_get (this hooked_state) = Some demo_get"
    by (simp add: hooked_state_def hooks_get_def)
  have g: "demo_get ''app-secret.access.4d'' AccessToken (world hooked_state)
             = (Inr stored_session, 1700000000005)"
    by (simp add: demo_get_def hooked_state_def demo_state_simps)
  have t: "truthy stored_session"
    by (simp add: stored_session_def)
  have v: "jwt_verify demo_env ''app-secret.access.4d'' (secret (this hooked_state))
             (Date_now demo_env (world hooked_state)) = Inr demo_payload"
    by (simp add: hooked_state_def demo_client_eq demo_env_simps demo_verify_def)
  have p: "prop_get stored_session ''access_token'' = Inr (JStr ''stored-access'')"
    "prop_get stored_session ''refresh_token'' = Inr (JStr ''stored-refresh'')"
    by (simp_all add: stored_session_def)
  have tr: "trace hooked_state = []"
    by (simp add: hooked_state_def demo_state_simps)
  show ?thesis
    using decrypt_with_get_hook [OF h g t, of demo_env] h g t
    by (simp add: v p tr)
qed

section \<open>Issuing tokens\<close>

text \<open>
  C5, as the claim states it, fails: \<^verbatim>\<open>Date.now()\<close> is read on line 50, after the \<^verbatim>\<open>create\<close>
  hook has been awaited. With a hook that takes one second, \<^verbatim>\<open>expires_in\<close> is one second
  more than the invocation time (1700000000000) plus 345600000.
\<close>

theorem encrypt_expires_in_counterexample:
  "Date_now demo_env (world hooked_state) + 345600000 = 1700345600000
   \<and> result_prop (encrypt demo_env demo_payload hooked_state) ''expires_in''
       = Inr (JNum 1700345601000)"
  by (simp add: result_prop_def encrypt_def Let_def sign_options_of_def hooked_state_def
      demo_state_simps demo_client_eq demo_env_simps demo_sign_def demo_refresh_payload_eq
      demo_payloads_differ hooks_create_def demo_create_def token_pair_def)

text \<open>
  C5, amended. For every payload, the token pair returned by \<^verbatim>\<open>encrypt\<close> has \<^verbatim>\<open>expires_in\<close>
  equal to the clock at the moment \<^verbatim>\<open>encrypt\<close> returns (after the \<^verbatim>\<open>create\<close> hook, if one is
  configured, has completed) plus exactly 345600000 milliseconds, and \<^verbatim>\<open>token_type\<close> equal
  to \<^verbatim>\<open>"Bearer"\<close>; without a \<^verbatim>\<open>create\<close> hook that moment is the invocation.
\<close>

theorem encrypt_expires_in:
  assumes "encrypt env payload s = (Inr pair, s')"
  shows "prop_get pair ''expires_in'' = Inr (JNum (Date_now env (world s') + 345600000))
         \<and> prop_get pair ''token_type'' = Inr (JStr ''Bearer'')
         \<and> (hooks_create (this s) = None \<longrightarrow> world s' = world s)"
  using assms
  by (auto simp: encrypt_def Let_def token_pair_def
      split: sum.splits option.splits prod.splits)

theorem encrypt_expires_in_witness:
  "encrypt demo_env demo_payload demo_state =
     (Inr (token_pair ''app-secret.access.4d'' ''app-secret.refresh.7d'' 1700000000000),
      demo_state)
   \<and> prop_get (token_pair ''app-secret.access.4d'' ''app-secret.refresh.7d'' 1700000000000)
       ''expires_in'' = Inr (JNum 1700345600000)
   \<and> prop_get (token_pair ''app-secret.access.4d'' ''app-secret.refresh.7d'' 1700000000000)
       ''token_type'' = Inr (JStr ''Bearer'')
   \<and> hooks_create (this demo_state) = None"
proof -
  have e: "encrypt demo_env demo_payload demo_state =
     (Inr (token_pair ''app-secret.access.4d'' ''app-secret.refresh.7d'' 1700000000000),
      demo_state)"
    by (simp add: encrypt_def Let_def sign_options_of_def demo_state_simps demo_client_eq
        demo_env_simps demo_sign_def demo_refresh_payload_eq demo_payloads_differ
        hooks_create_def demo_options_def)
  show ?thesis
    using encrypt_expires_in [OF e] e
    by (simp add: demo_env_simps demo_state_simps demo_client_eq hooks_create_def)
qed

text \<open>
  C6, as the claim states it, fails: \<^verbatim>\<open>if (this.issuer)\<close> tests truthiness, so a manager
  configured with the empty string as issuer signs without the issuer option, although
  the token library would take it (the concrete library then writes \<^verbatim>\<open>.iss=\<close>).
\<close>

theorem encrypt_issuer_counterexample:
  "issuer (this empty_issuer_state) = Some []
   \<and> result_prop (encrypt demo_env demo_payload empty_issuer_state) ''access_token''
       = Inr (JStr ''app-secret.access.4d'')
   \<and> jwt_sign demo_env demo_payload ''app-secret''
        \<lparr> opt_algorithm = HS512, opt_expiresIn = ''4d'', opt_issuer = None \<rparr> 1700000000000
       = Inr ''app-secret.access.4d''
   \<and> jwt_sign demo_env demo_payload ''app-secret''
        \<lparr> opt_algorithm = HS512, opt_expiresIn = ''4d'', opt_issuer = Some [] \<rparr> 1700000000000
       = Inr ''app-secret.access.4d.iss=''"
  by (simp add: result_prop_def encrypt_def Let_def sign_options_of_def empty_issuer_state_def
      demo_state_simps demo_client_eq demo_env_simps demo_sign_def demo_refresh_payload_eq
      demo_payloads_differ hooks_create_def token_pair_def demo_options_def)

text \<open>
  C6, amended. For every payload, \<^verbatim>\<open>encrypt\<close> signs the access token over the full payload
  with the time span \<^verbatim>\<open>4d\<close>, attaching the issuer exactly when the configured issuer is a
  non-empty string, and signs the refresh token over only
  \<^verbatim>\<open>{data: {scope, refresh_token, token_type}}\<close> read from \<^verbatim>\<open>payload.auth\<close> with the time span
  \<^verbatim>\<open>7d\<close>, with the same secret, issuer and algorithm for both.
\<close>

theorem encrypt_signs:
  assumes "encrypt env payload s = (Inr pair, s')"
    and "iss = (case issuer (this s) of None \<Rightarrow> None | Some i \<Rightarrow> if i = [] then None else Some i)"
  shows "\<exists>a sc rt tt accessToken refreshToken.
           prop_get payload ''auth'' = Inr a
           \<and> prop_get a ''scope'' = Inr sc
           \<and> prop_get a ''refresh_token'' = Inr rt
           \<and> prop_get a ''token_type'' = Inr tt
           \<and> jwt_sign env payload (secret (this s))
                \<lparr> opt_algorithm = algorithm (this s), opt_expiresIn = ''4d'', opt_issuer = iss \<rparr>
                (Date_now env (world s)) = Inr accessToken
           \<and> jwt_sign env
                (JObj [(''data'',
                   JObj [(''scope'', sc), (''refresh_token'', rt), (''token_type'', tt)])])
                (secret (this s))
                \<lparr> opt_algorithm = algorithm (this s), opt_expiresIn = ''7d'', opt_issuer = iss \<rparr>
                (Date_now env (world s)) = Inr refreshToken
           \<and> prop_get pair ''access_token'' = Inr (JStr accessToken)
           \<and> prop_get pair ''refresh_token'' = Inr (JStr refreshToken)"
proof -
  have opts: "sign_options_of (this s) =
      \<lparr> opt_algorithm = algorithm (this s), opt_expiresIn = ''4d'', opt_issuer = iss \<rparr>"
    by (simp add: sign_options_of_def assms(2) split: option.splits)
  from assms(1) obtain accessToken where
    at: "jwt_sign env payload (secret (this s)) (sign_options_of (this s))
           (Date_now env (world s)) = Inr accessToken"
    by (auto simp: encrypt_def Let_def split: sum.splits)
  from assms(1) at obtain rp where rp: "refresh_payload payload = Inr rp"
    by (auto simp: encrypt_def Let_def split: sum.splits)
  from assms(1) at rp obtain refreshToken where
    rt: "jwt_sign env rp (secret (this s)) ((sign_options_of (this s))\<lparr> opt_expiresIn := ''7d'' \<rparr>)
           (Date_now env (world s)) = Inr refreshToken"
    by (auto simp: encrypt_def Let_def split: sum.splits)
  from rp obtain a sc r tt where parts:
    "prop_get payload ''auth'' = Inr a" "prop_get a ''scope'' = Inr sc"
    "prop_get a ''refresh_token'' = Inr r" "prop_get a ''token_type'' = Inr tt"
    "rp = JObj [(''data'', JObj [(''scope'', sc), (''refresh_token'', r), (''token_type'', tt)])]"
    by (auto simp: refresh_payload_def split: sum.splits)
  from assms(1) at rp rt have
    "prop_get pair ''access_token'' = Inr (JStr accessToken)
     \<and> prop_get pair ''refresh_token'' = Inr (JStr refreshToken)"
    by (auto simp: encrypt_def Let_def token_pair_def split: option.splits prod.splits sum.splits)
  with at rt parts opts show ?thesis
    by auto
qed

theorem encrypt_signs_witness:
  "encrypt demo_env demo_payload named_issuer_state =
     (Inr (token_pair ''app-secret.access.4d.iss=neko'' ''app-secret.refresh.7d.iss=neko''
             1700000000000),
      named_issuer_state)
   \<and> (\<exists>a sc rt tt accessToken refreshToken.
         prop_get demo_payload ''auth'' = Inr a
         \<and> prop_get a ''scope'' = Inr sc
         \<and> prop_get a ''refresh_token'' = Inr rt
         \<and> prop_get a ''token_type'' = Inr tt
         \<and> demo_sign demo_payload ''app-secret''
              \<lparr> opt_algorithm = HS512, opt_expiresIn = ''4d'', opt_issuer = Some ''neko'' \<rparr>
              1700000000000 = Inr accessToken
         \<and> demo_sign
              (JObj [(''data'',
                 JObj [(''scope'', sc), (''refresh_token'', rt), (''token_type'', tt)])])
              ''app-secret''
              \<lparr> opt_algorithm = HS512, opt_expiresIn = ''7d'', opt_issuer = Some ''neko'' \<rparr>
              1700000000000 = Inr refreshToken
         \<and> prop_get (token_pair ''app-secret.access.4d.iss=neko''
                       ''app-secret.refresh.7d.iss=neko'' 1700000000000)
             ''access_token'' = Inr (JStr accessToken)
         \<and> prop_get (token_pair ''app-secret.access.4d.iss=neko''
                       ''app-secret.refresh.7d.iss=neko'' 1700000000000)
             ''refresh_token'' = Inr (JStr refreshToken))"
proof -
  have e: "encrypt demo_env demo_payload named_issuer_state =
     (Inr (token_pair ''app-secret.access.4d.iss=neko'' ''app-secret.refresh.7d.iss=neko''
             1700000000000),
      named_issuer_state)"
    by (simp add: encrypt_def Let_def sign_options_of_def named_issuer_state_def
        demo_state_simps demo_client_eq demo_env_simps demo_sign_def demo_refresh_payload_eq
        demo_payloads_differ hooks_create_def demo_options_def)
  have i: "Some ''neko'' = (case issuer (this named_issuer_state) of
                     None \<Rightarrow> None | Some i \<Rightarrow> if i = [] then None else Some i)"
    by (simp add: named_issuer_state_def)
  have c: "secret (this named_issuer_state) = ''app-secret''"
    "algorithm (this named_issuer_state) = HS512"
    "world named_issuer_state = 1700000000000"
    by (simp_all add: named_issuer_state_def demo_client_eq demo_state_simps)
  show ?thesis
    using encrypt_signs [OF e i] e
    by (simp add: c demo_env_simps)
qed

section \<open>Signing out\<close>

text \<open>
  C8, as the claim states it, fails: a \<^verbatim>\<open>delete\<close> hook that rejects makes \<^verbatim>\<open>signOut\<close> reject;
  the call does not resolve to \<^verbatim>\<open>true\<close>.
\<close>

theorem signOut_failing_hook_counterexample:
  "hooks_delete (this failing_state) = Some failing_delete
   \<and> fst (signOut demo_env ''session-token'' failing_state)
       = Inl (Thrown ''session store unavailable'')
   \<and> fst (signOut demo_env ''session-token'' failing_state) \<noteq> Inr (JBool True)"
  by (simp add: signOut_def Let_def failing_state_def hooks_delete_def failing_delete_def)

text \<open>
  C8, amended. For every access-token string: when no \<^verbatim>\<open>delete\<close> hook is configured,
  \<^verbatim>\<open>signOut\<close> resolves to \<^verbatim>\<open>true\<close> and performs no action; when one is configured it is
  invoked exactly once, with the given access token, and \<^verbatim>\<open>signOut\<close> resolves to \<^verbatim>\<open>true\<close> if
  the hook completes and rejects with the hook's error if the hook rejects.
\<close>

theorem signOut_true:
  "(hooks_delete (this s) = None \<longrightarrow> signOut env accessToken s = (Inr (JBool True), s))
   \<and> (hooks_delete (this s) = Some hook \<and> hook accessToken (world s) = (r, w)
      \<longrightarrow> signOut env accessToken s =
            (case r of Inl e \<Rightarrow> Inl e | Inr v \<Rightarrow> Inr (JBool True),
             s\<lparr> trace := trace s @ [HookDelete accessToken], world := w \<rparr>))"
  by (simp add: signOut_def Let_def split: sum.splits)

theorem signOut_true_witness:
  "hooks_delete (this demo_state) = None
   \<and> signOut demo_env ''session-token'' demo_state = (Inr (JBool True), demo_state)
   \<and> hooks_delete (this hooked_state) = Some demo_delete
   \<and> demo_delete ''session-token'' (world hooked_state) = (Inr JUndefined, 1700000000007)
   \<and> signOut demo_env ''session-token'' hooked_state =
       (Inr (JBool True),
        hooked_state\<lparr> trace := [HookDelete ''session-token''], world := 1700000000007 \<rparr>)"
proof -
  have n: "hooks_delete (this demo_state) = None"
    by (simp add: demo_state_simps demo_client_eq hooks_delete_def)
  have h: "hooks_delete (this hooked_state) = Some demo_delete"
    by (simp add: hooked_state_def hooks_delete_def)
  have d: "demo_delete ''session-token'' (world hooked_state) = (Inr JUndefined, 1700000000007)"
    by (simp add: demo_delete_def hooked_state_def demo_state_simps)
  have tr: "trace hooked_state = []"
    by (simp add: hooked_state_def demo_state_simps)
  show ?thesis
    using signOut_true [of demo_state demo_env "''session-token''" demo_delete "Inr JUndefined" 0]
      signOut_true [of hooked_state demo_env "''session-token''" demo_delete "Inr JUndefined"
        1700000000007] n h d
    by (simp add: tr)
qed

section \<open>The OAuth2 exchange\<close>

text \<open>
  C3, as the claim states it, fails: the method has no handler, so on a network failure
  (\<^verbatim>\<open>fetch\<close> rejects) the exception reaches the caller; nothing is logged and \<^verbatim>\<open>null\<close> is not
  returned.
\<close>

theorem authOrRefresh_network_failure_counterexample:
  "fst (fetch offline_env (tokenURL offline_env)
          (token_request offline_env demo_auth ''code'' Code None) (world demo_state))
     = Inl (Thrown ''fetch failed'')
   \<and> fst (authOrRefresh offline_env ''code'' Code None demo_state) = Inl (Thrown ''fetch failed'')
   \<and> trace (snd (authOrRefresh offline_env ''code'' Code None demo_state))
       = [Fetch (tokenURL offline_env) (token_request offline_env demo_auth ''code'' Code None)]"
  by (simp add: authOrRefresh_def Let_def offline_env_def demo_env_def offline_fetch_def
      demo_state_simps)

text \<open>
  C3, amended. For every input and grant type, with the OAuth2 application configured:
  when the token endpoint answers with a non-success status and a body that parses as
  JSON, \<^verbatim>\<open>authOrRefresh\<close> logs the parsed body and returns \<^verbatim>\<open>null\<close> without raising; when
  \<^verbatim>\<open>fetch\<close> rejects (network failure) or the body does not parse, that exception
  propagates to the caller and nothing is logged.
\<close>

theorem authOrRefresh_failure:
  assumes "server env = Some (Some a)"
    and "req = token_request env a tokenOrCode grantType redirectUri"
  shows "(fetch env (tokenURL env) req (world s) = (Inr result, w) \<and> \<not> ok result
            \<and> json result = Inr body
          \<longrightarrow> authOrRefresh env tokenOrCode grantType redirectUri s =
                (Inr JNull,
                 s\<lparr> trace := trace s @ [Fetch (tokenURL env) req, LoggerError body],
                    world := w \<rparr>))
       \<and> (fetch env (tokenURL env) req (world s) = (Inl e, w)
          \<longrightarrow> authOrRefresh env tokenOrCode grantType redirectUri s =
                (Inl e, s\<lparr> trace := trace s @ [Fetch (tokenURL env) req], world := w \<rparr>))
       \<and> (fetch env (tokenURL env) req (world s) = (Inr result, w) \<and> json result = Inl e
          \<longrightarrow> authOrRefresh env tokenOrCode grantType redirectUri s =
                (Inl e, s\<lparr> trace := trace s @ [Fetch (tokenURL env) req], world := w \<rparr>))"
  using assms by (simp add: authOrRefresh_def Let_def)

theorem authOrRefresh_failure_witness:
  "server demo_env = Some (Some demo_auth)
   \<and> fetch demo_env (tokenURL demo_env) (token_request demo_env demo_auth ''code'' Code None)
       (world demo_state)
       = (Inr \<lparr> ok = False, json = Inr (JObj [(''error'', JStr ''invalid_grant'')]) \<rparr>,
          1700000000030)
   \<and> authOrRefresh demo_env ''code'' Code None demo_state =
       (Inr JNull,
        demo_state\<lparr> trace := [Fetch (tokenURL demo_env)
                                (token_request demo_env demo_auth ''code'' Code None),
                              LoggerError (JObj [(''error'', JStr ''invalid_grant'')])],
                    world := 1700000000030 \<rparr>)"
proof -
  have a: "server demo_env = Some (Some demo_auth)"
    by (simp add: demo_env_simps)
  have f: "fetch demo_env (tokenURL demo_env)
             (token_request demo_env demo_auth ''code'' Code None) (world demo_state)
           = (Inr \<lparr> ok = False, json = Inr (JObj [(''error'', JStr ''invalid_grant'')]) \<rparr>,
              1700000000030)"
    by (simp add: demo_env_simps demo_fetch_def demo_state_simps)
  show ?thesis
    using authOrRefresh_failure [OF a refl, of "''code''" Code None demo_state
        "\<lparr> ok = False, json = Inr (JObj [(''error'', JStr ''invalid_grant'')]) \<rparr>"
        1700000000030 "JObj [(''error'', JStr ''invalid_grant'')]" "Thrown []"] a f
    by (simp add: demo_state_simps)
qed

text \<open>
  C7. For every code, grant type and redirect URI: when \<^verbatim>\<open>authOrRefresh\<close> yields a nullish
  result, \<^verbatim>\<open>auth\<close> returns \<^verbatim>\<open>null\<close> in the state \<^verbatim>\<open>authOrRefresh\<close> left, and the user-data fetch
  is not invoked in that call; whenever the user-data fetch is invoked in a call of
  \<^verbatim>\<open>auth\<close>, the exchange has completed before with a result that is not nullish.
\<close>

theorem auth_null_without_fetchData:
  "(fst (authOrRefresh env code grantType redirectUri s) = Inr authData \<and> isNullish authData
    \<longrightarrow> auth env code grantType redirectUri s =
          (Inr JNull, snd (authOrRefresh env code grantType redirectUri s))
        \<and> fetchData_calls (trace (snd (auth env code grantType redirectUri s)))
            = fetchData_calls (trace s))
   \<and> (fetchData_calls (trace (snd (auth env code grantType redirectUri s)))
        \<noteq> fetchData_calls (trace s)
      \<longrightarrow> (\<exists>v t. fst (authOrRefresh env code grantType redirectUri s) = Inr v
                 \<and> \<not> isNullish v
                 \<and> trace (snd (auth env code grantType redirectUri s))
                     = trace (snd (authOrRefresh env code grantType redirectUri s))
                       @ [FetchData t]))"
proof -
  obtain r s1 where ar: "authOrRefresh env code grantType redirectUri s = (r, s1)"
    by (cases "authOrRefresh env code grantType redirectUri s")
  have same: "fetchData_calls (trace s1) = fetchData_calls (trace s)"
    using authOrRefresh_fetchData_calls [of env code grantType redirectUri s] ar by simp
  have first: "r = Inr authData \<and> isNullish authData
      \<longrightarrow> auth env code grantType redirectUri s = (Inr JNull, s1)"
    by (simp add: auth_def ar)
  have second: "fetchData_calls (trace (snd (auth env code grantType redirectUri s)))
        \<noteq> fetchData_calls (trace s)
      \<longrightarrow> (\<exists>v t. r = Inr v \<and> \<not> isNullish v
                 \<and> trace (snd (auth env code grantType redirectUri s)) = trace s1 @ [FetchData t])"
    using same
    by (auto simp: auth_def ar Let_def split: sum.splits option.splits prod.splits if_splits)
  from first second same show ?thesis
    by (simp add: ar)
qed

theorem auth_null_without_fetchData_witness:
  "fst (authOrRefresh demo_env ''code'' Code None demo_state) = Inr JNull
   \<and> isNullish JNull
   \<and> fst (auth demo_env ''code'' Code None demo_state) = Inr JNull
   \<and> fetchData_calls (trace (snd (auth demo_env ''code'' Code None demo_state))) = []
   \<and> fetchData_calls (trace (snd (auth granting_env ''code'' Code None demo_state)))
       = [JStr ''provider-access'']
   \<and> fst (authOrRefresh granting_env ''code'' Code None demo_state)
       = Inr (JObj [(''access_token'', JStr ''provider-access''),
                    (''token_type'', JStr ''Bearer''),
                    (''expires_in'', JNum 604800),
                    (''refresh_token'', JStr ''provider-refresh''),
                    (''scope'', JStr ''identify'')])"
proof -
  have n: "fst (authOrRefresh demo_env ''code'' Code None demo_state) = Inr JNull"
    by (simp add: authOrRefresh_def Let_def demo_env_simps demo_fetch_def)
  have g: "fetchData_calls (trace (snd (auth granting_env ''code'' Code None demo_state)))
             = [JStr ''provider-access'']"
    by (simp add: auth_def authOrRefresh_def Let_def granting_env_def demo_env_def
        granting_fetch_def demo_auth_def demo_fetchData_def demo_state_simps)
  have r: "fst (authOrRefresh granting_env ''code'' Code None demo_state)
       = Inr (JObj [(''access_token'', JStr ''provider-access''),
                    (''token_type'', JStr ''Bearer''),
                    (''expires_in'', JNum 604800),
                    (''refresh_token'', JStr ''provider-refresh''),
                    (''scope'', JStr ''identify'')])"
    by (simp add: authOrRefresh_def Let_def granting_env_def demo_env_def granting_fetch_def)
  show ?thesis
    using auth_null_without_fetchData [of demo_env "''code''" Code None demo_state JNull]
      auth_null_without_fetchData [of granting_env "''code''" Code None demo_state JNull] n g r
    by (auto simp: demo_state_simps)
qed

section \<open>The configuration\<close>

text \<open>
  C9. The four configuration fields (issuer, signing secret, algorithm, session hooks)
  are assigned by the constructor, and every operation (\<^verbatim>\<open>encrypt\<close>, \<^verbatim>\<open>decrypt\<close>, \<^verbatim>\<open>signOut\<close>,
  \<^verbatim>\<open>auth\<close>, \<^verbatim>\<open>authOrRefresh\<close>) leaves them as it found them, whatever it returns or raises;
  so after any sequence of operations the manager still has the configuration it was
  constructed with. The statement is about the four fields: the hooks field keeps holding
  the hooks it was given, and what the caller or a hook does to that hooks object itself
  is outside it.
\<close>

theorem configuration_unchanged:
  "Client env options =
     \<lparr> issuer = options_issuer options,
       secret = (case server env of Some (Some a) \<Rightarrow> auth_secret a | _ \<Rightarrow> ''NEKO-PLUGINS''),
       algorithm = (case options_algorithm options of None \<Rightarrow> HS512 | Some a \<Rightarrow> a),
       sessionsHooks = options_sessionsHooks options \<rparr>
   \<and> this (snd (encrypt env payload s)) = this s
   \<and> this (snd (decrypt env token type s)) = this s
   \<and> this (snd (signOut env token s)) = this s
   \<and> this (snd (auth env code grantType redirectUri s)) = this s
   \<and> this (snd (authOrRefresh env code grantType redirectUri s)) = this s
   \<and> this (perform_all env calls \<lparr> this = Client env options, world = w, trace = [] \<rparr>)
       = Client env options"
proof -
  have "this (perform_all env calls s0) = this s0" for s0
    by (induction calls arbitrary: s0) (simp_all add: perform_this)
  then show ?thesis
    by (simp add: encrypt_this decrypt_this signOut_this auth_this authOrRefresh_this
        Client_def split: option.splits)
qed

section \<open>Parsing numbers\<close>

text \<open>
  C10. \<^verbatim>\<open>tryNumberParse\<close> returns \<^verbatim>\<open>undefined\<close> for \<^verbatim>\<open>undefined\<close>; for a string it returns the
  numeric conversion when that is not \<^verbatim>\<open>NaN\<close> and throws a \<open>TypeError\<close> exactly when it is
  \<^verbatim>\<open>NaN\<close>; so a number it returns is never \<^verbatim>\<open>NaN\<close>.
\<close>

theorem tryNumberParse_never_NaN:
  "tryNumberParse Number None = Inr None
   \<and> (\<not> Number_isNaN (Number v) \<longrightarrow> tryNumberParse Number (Some v) = Inr (Some (Number v)))
   \<and> (Number_isNaN (Number v) \<longleftrightarrow> (\<exists>m. tryNumberParse Number (Some v) = Inl (TypeError m)))
   \<and> (tryNumberParse Number value = Inr (Some r) \<longrightarrow> \<not> Number_isNaN r)"
  by (auto simp: tryNumberParse_def Let_def split: option.splits if_splits)

theorem tryNumberParse_never_NaN_witness:
  "tryNumberParse Number_decimal None = Inr None
   \<and> \<not> Number_isNaN (Number_decimal ''42'')
   \<and> tryNumberParse Number_decimal (Some ''42'') = Inr (Some (Value 42))
   \<and> Number_isNaN (Number_decimal ''4x'')
   \<and> tryNumberParse Number_decimal (Some ''4x'')
       = Inl (TypeError ''Could not parse 4x to a number'')"
  using tryNumberParse_never_NaN [of Number_decimal "''42''" "Some ''42''" "Value 42"]
    tryNumberParse_never_NaN [of Number_decimal "''4x''" "None" "NaN"]
  by (simp add: Number_decimal_def tryNumberParse_def digit_value_def Let_def)

section \<open>Issuing a token and reading it back\<close>




end
